theory Spec2Isabelle
  imports Main
begin

section \<open>Strings\<close>

text \<open>
  A Python \<open>str\<close> is modelled as a \<open>string\<close>; every \<open>char\<close> stands for the code
  point of the same number (0 to 255).  \<open>is_space\<close> is the set of code points below 256
  that \<open>str.strip()\<close> removes, \<open>lower_char\<close> is \<open>str.lower()\<close> on one such code point.
\<close>

definition is_space :: "char \<Rightarrow> bool" where
  "is_space c \<longleftrightarrow> (of_char c :: nat) \<in> set [9, 10, 11, 12, 13, 28, 29, 30, 31, 32, 133, 160]"

definition lower_char :: "char \<Rightarrow> char" where
  "lower_char c =
     (let n = (of_char c :: nat)
      in if (65 \<le> n \<and> n \<le> 90) \<or> (192 \<le> n \<and> n \<le> 222 \<and> n \<noteq> 215)
         then char_of (n + 32) else c)"

definition lower :: "string \<Rightarrow> string" where
  "lower s = map lower_char s"

definition lstrip :: "(char \<Rightarrow> bool) \<Rightarrow> string \<Rightarrow> string" where
  "lstrip P s = dropWhile P s"

definition strip :: "string \<Rightarrow> string" where
  "strip s = rev (dropWhile is_space (rev (dropWhile is_space s)))"

definition lstrip_dots :: "string \<Rightarrow> string" where
  "lstrip_dots s = lstrip (\<lambda>c. c = CHR ''.'') s"

text \<open>\<open>s.split(sep)\<close> for a one-character separator: never the empty list.\<close>

fun split :: "char \<Rightarrow> string \<Rightarrow> string list" where
  "split sep [] = [[]]"
| "split sep (c # cs) =
     (if c = sep then [] # split sep cs
      else (case split sep cs of
              [] \<Rightarrow> [[c]]
            | w # ws \<Rightarrow> (c # w) # ws))"

text \<open>\<open>sep.join(xs)\<close>.\<close>

fun join :: "string \<Rightarrow> string list \<Rightarrow> string" where
  "join sep [] = []"
| "join sep [x] = x"
| "join sep (x # y # ys) = x @ sep @ join sep (y # ys)"

text \<open>\<open>s.rfind(c)\<close>: the last index of \<open>c\<close>, or \<open>-1\<close>.\<close>

primrec find_last :: "char \<Rightarrow> string \<Rightarrow> nat option" where
  "find_last c [] = None"
| "find_last c (x # xs) =
     (case find_last c xs of
        Some i \<Rightarrow> Some (Suc i)
      | None \<Rightarrow> if x = c then Some 0 else None)"

definition rfind :: "char \<Rightarrow> string \<Rightarrow> int" where
  "rfind c s = (case find_last c s of None \<Rightarrow> - 1 | Some i \<Rightarrow> int i)"

text \<open>\<open>str(n)\<close> for an integer.\<close>

definition digit_char :: "nat \<Rightarrow> char" where
  "digit_char d = char_of (48 + d)"

fun str_nat :: "nat \<Rightarrow> string" where
  "str_nat n = (if n < 10 then [digit_char n] else str_nat (n div 10) @ [digit_char (n mod 10)])"

definition str_int :: "int \<Rightarrow> string" where
  "str_int i = (if i < 0 then CHR ''-'' # str_nat (nat (- i)) else str_nat (nat i))"

section \<open>Pure paths (pathlib, POSIX flavour, Python 3.10 to 3.13)\<close>

text \<open>
  A path is its root (\<open>''''\<close>, \<open>''/''\<close> or \<open>''//''\<close>) and its components.  The host is
  POSIX (\<open>os.name\<close> is not \<open>nt\<close>), so the separator is \<open>/\<close> and there is no drive.
\<close>

datatype path = Path (root: string) (parts: "string list")

datatype exn =
    ValueError
  | FileExistsError
  | NotADirectoryError
  | FileNotFoundError
  | RuntimeError
  | OtherError string

text \<open>\<open>Path(s)\<close>: split the root off, drop empty components and \<open>.\<close>.\<close>

definition path_of_str :: "string \<Rightarrow> path" where
  "path_of_str s =
     (let (r, rest) =
            (if take 1 s = ''/'' then
               (if take 1 (drop 1 s) \<noteq> ''/'' \<or> take 1 (drop 2 s) = ''/''
                then (''/'', drop 1 s) else (''//'', drop 2 s))
             else ('''', s))
      in Path r (filter (\<lambda>x. x \<noteq> [] \<and> x \<noteq> ''.'') (split CHR ''/'' rest)))"

text \<open>\<open>str(p)\<close>.\<close>

definition str_path :: "path \<Rightarrow> string" where
  "str_path p =
     (if root p = [] \<and> parts p = [] then ''.'' else root p @ join ''/'' (parts p))"

text \<open>\<open>p / q\<close>.\<close>

definition joinpath :: "path \<Rightarrow> path \<Rightarrow> path" where
  "joinpath p q = (if root q \<noteq> [] then q else Path (root p) (parts p @ parts q))"

text \<open>\<open>p.name\<close>, \<open>p.parent\<close>, \<open>p.suffix\<close>.\<close>

definition name :: "path \<Rightarrow> string" where
  "name p = (if parts p = [] then [] else last (parts p))"

definition parent :: "path \<Rightarrow> path" where
  "parent p = Path (root p) (butlast (parts p))"

definition suffix_of_name :: "string \<Rightarrow> string" where
  "suffix_of_name nm =
     (let i = rfind CHR ''.'' nm
      in if 0 < i \<and> i < int (length nm) - 1 then drop (nat i) nm else [])"

definition suffix :: "path \<Rightarrow> string" where
  "suffix p = suffix_of_name (name p)"

text \<open>\<open>p.with_suffix(s)\<close> raises \<open>ValueError\<close> on an invalid suffix or an empty name.\<close>

definition with_suffix :: "path \<Rightarrow> string \<Rightarrow> exn + path" where
  "with_suffix p s =
     (if CHR ''/'' \<in> set s then Inl ValueError
      else if (s \<noteq> [] \<and> take 1 s \<noteq> ''.'') \<or> s = ''.'' then Inl ValueError
      else if name p = [] then Inl ValueError
      else
        let nm = name p; old = suffix p;
            nm' = (if old = [] then nm @ s else take (length nm - length old) nm @ s)
        in Inr (Path (root p) (butlast (parts p) @ [nm'])))"

text \<open>\<open>p.relative_to(d)\<close> raises \<open>ValueError\<close> unless \<open>p\<close> lies under \<open>d\<close>.\<close>

definition relative_to :: "path \<Rightarrow> path \<Rightarrow> exn + path" where
  "relative_to p d =
     (if root p = root d \<and> take (length (parts d)) (parts p) = parts d
      then Inr (Path [] (drop (length (parts d)) (parts p)))
      else Inl ValueError)"

section \<open>Options and the command builder\<close>

text \<open>The \<open>argparse.Namespace\<close> that \<open>parse_args\<close> returns.\<close>

record namespace =
  input_opt :: string
  output_opt :: string
  formats :: string
  bitrate :: "string option"
  samplerate :: "int option"
  channels :: "int option"
  normalize_flag :: bool
  overwrite :: bool
  dry_run :: bool
  ffmpeg :: "string option"
  telephony :: bool

text \<open>Truth value of an optional string and of an optional integer.\<close>

fun truthy_str :: "string option \<Rightarrow> bool" where
  "truthy_str None = False"
| "truthy_str (Some s) = (s \<noteq> [])"

fun truthy_int :: "int option \<Rightarrow> bool" where
  "truthy_int None = False"
| "truthy_int (Some i) = (i \<noteq> 0)"

text \<open>\<open>if args.bitrate: cmd += ["-b:a", args.bitrate]\<close>, the same in every branch that has it.\<close>

definition bitrate_args :: "namespace \<Rightarrow> string list" where
  "bitrate_args args =
     (case bitrate args of
        None \<Rightarrow> []
      | Some b \<Rightarrow> if truthy_str (Some b) then [''-b:a'', b] else [])"

definition samplerate_args :: "namespace \<Rightarrow> string list" where
  "samplerate_args args =
     (case samplerate args of
        None \<Rightarrow> []
      | Some r \<Rightarrow> if truthy_int (Some r) then [''-ar'', str_int r] else [])"

definition channels_args :: "namespace \<Rightarrow> string list" where
  "channels_args args =
     (case channels args of
        None \<Rightarrow> []
      | Some c \<Rightarrow> if truthy_int (Some c) then [''-ac'', str_int c] else [])"

definition codec_args :: "string \<Rightarrow> namespace \<Rightarrow> string list" where
  "codec_args ext args =
     (if ext = ''.mp3'' then [''-c:a'', ''libmp3lame''] @ bitrate_args args
      else if ext \<in> set [''.aac'', ''.m4a''] then [''-c:a'', ''aac''] @ bitrate_args args
      else if ext = ''.opus'' then [''-c:a'', ''libopus''] @ bitrate_args args
      else if ext = ''.ogg'' then [''-c:a'', ''libvorbis''] @ bitrate_args args
      else if ext = ''.flac'' then [''-c:a'', ''flac'']
      else if ext \<in> set [''.wav'', ''.aiff'', ''.aif''] then [''-c:a'', ''pcm_s16le'']
      else bitrate_args args)"

definition build_ffmpeg_cmd :: "string \<Rightarrow> path \<Rightarrow> path \<Rightarrow> namespace \<Rightarrow> string list" where
  "build_ffmpeg_cmd ffmpeg_bin src dst args =
     (let cmd = [ffmpeg_bin, ''-hide_banner'', ''-loglevel'', ''error'',
                 (if overwrite args then ''-y'' else ''-n''),
                 ''-i'', str_path src];
          afilters = (if normalize_flag args
                      then [''loudnorm=I=-16:LRA=11:TP=-1.5:linear=true''] else []);
          cmd = (if afilters \<noteq> [] then cmd @ [''-af'', join '','' afilters] else cmd);
          ext = lower (suffix dst);
          cmd = cmd @ codec_args ext args;
          cmd = cmd @ samplerate_args args;
          cmd = cmd @ channels_args args
      in cmd @ [str_path dst])"

text \<open>Line 145: the list of target suffixes parsed from \<open>--formats\<close>.\<close>

definition parse_formats :: "string \<Rightarrow> string list" where
  "parse_formats s =
     map (\<lambda>fmt. CHR ''.'' # lstrip_dots (lower (strip fmt)))
         (filter (\<lambda>fmt. strip fmt \<noteq> []) (split CHR '','' s))"

section \<open>The world: disk, printed lines, launched processes\<close>

text \<open>
  The disk holds regular files (in the order a recursive traversal yields them) and
  directories, both as the components of an absolute path; the root directory always
  exists.  There are no symbolic links and no permission failures.
\<close>

record disk =
  files :: "string list list"
  dirs :: "string list list"

definition is_file :: "disk \<Rightarrow> path \<Rightarrow> bool" where
  "is_file d p \<longleftrightarrow> parts p \<in> set (files d)"

definition is_dir :: "disk \<Rightarrow> path \<Rightarrow> bool" where
  "is_dir d p \<longleftrightarrow> parts p = [] \<or> parts p \<in> set (dirs d)"

definition exists :: "disk \<Rightarrow> path \<Rightarrow> bool" where
  "exists d p \<longleftrightarrow> is_file d p \<or> is_dir d p"

text \<open>
  \<open>os.mkdir(p)\<close>: \<open>FileExistsError\<close> when \<open>p\<close> exists, \<open>NotADirectoryError\<close> when
  the parent is a regular file, \<open>FileNotFoundError\<close> when the parent is missing.
\<close>

definition os_mkdir :: "disk \<Rightarrow> path \<Rightarrow> exn + disk" where
  "os_mkdir d p =
     (if exists d p then Inl FileExistsError
      else if is_dir d (parent p) then Inr (d\<lparr>dirs := dirs d @ [parts p]\<rparr>)
      else if is_file d (parent p) then Inl NotADirectoryError
      else Inl FileNotFoundError)"

text \<open>
  \<open>p.mkdir(parents=True, exist_ok=True)\<close>, as pathlib writes it: try \<open>os.mkdir\<close>; when
  the parent is missing, make the parent this way and try once more; any other
  \<open>OSError\<close> is swallowed when \<open>p\<close> is a directory.  The recursion is on the components
  of \<open>p\<close>, innermost first.
\<close>

definition mkdir_exist_ok :: "disk \<Rightarrow> path \<Rightarrow> exn + disk" where
  "mkdir_exist_ok d p =
     (case os_mkdir d p of
        Inr d' \<Rightarrow> Inr d'
      | Inl e \<Rightarrow> if is_dir d p then Inr d else Inl e)"

fun mkdir_rev :: "disk \<Rightarrow> string \<Rightarrow> string list \<Rightarrow> exn + disk" where
  "mkdir_rev d r [] = mkdir_exist_ok d (Path r [])"
| "mkdir_rev d r (x # up) =
     (case os_mkdir d (Path r (rev (x # up))) of
        Inr d' \<Rightarrow> Inr d'
      | Inl FileNotFoundError \<Rightarrow>
          (case mkdir_rev d r up of
             Inl e \<Rightarrow> Inl e
           | Inr d' \<Rightarrow> mkdir_exist_ok d' (Path r (rev (x # up))))
      | Inl e \<Rightarrow> if is_dir d (Path r (rev (x # up))) then Inr d else Inl e)"

definition mkdir_parents :: "disk \<Rightarrow> path \<Rightarrow> exn + disk" where
  "mkdir_parents d p = mkdir_rev d (root p) (rev (parts p))"

text \<open>What the program prints, one constructor for each \<open>print\<close> of \<open>main\<close>.\<close>

datatype msg =
    NoFormats
  | TelephonyAdvice
  | NoAudioFound path
  | FilesFound nat
  | TasksToRun nat
  | NothingToDo
  | Progress nat nat path path
  | DryCmd "string list"
  | ConvertError path path
  | FfmpegSays string
  | NoDetails
  | Unexpected path path string
  | Finished

text \<open>The messages of \<open>sys.exit\<close>, and the ways the process ends.\<close>

datatype fatal =
    NotAtFfmpegArg string
  | NotOnPath
  | CannotRun string
  | Corrupt string

datatype exit = Returned | SysExit fatal | Uncaught exn

fun exit_status :: "exit \<Rightarrow> nat" where
  "exit_status Returned = 0"
| "exit_status (SysExit m) = 1"
| "exit_status (Uncaught e) = 1"

text \<open>
  What \<open>subprocess.run(cmd, check=True)\<close> does: the process exits with status 0, exits
  with another status (\<open>CalledProcessError\<close>, with the captured error stream), cannot be
  found (\<open>FileNotFoundError\<close>, with its \<open>repr\<close>), or another subclass of \<open>Exception\<close>
  is raised (with its \<open>repr\<close>).  The external executable is a parameter: it maps the
  argument list and the disk to an outcome and a disk.  An interrupt of the whole
  process is outside the model.
\<close>

datatype outcome = Exit0 | ExitNonzero string | LaunchNotFound string | Raised string

type_synonym process = "string list \<Rightarrow> disk \<Rightarrow> outcome \<times> disk"

record world =
  disk_of :: disk
  out :: "msg list"
  calls :: "string list list"

definition say :: "msg \<Rightarrow> world \<Rightarrow> world" where
  "say m w = w\<lparr>out := out w @ [m]\<rparr>"

definition subprocess_run :: "process \<Rightarrow> string list \<Rightarrow> world \<Rightarrow> outcome \<times> world" where
  "subprocess_run proc cmd w =
     (let (r, d) = proc cmd (disk_of w)
      in (r, w\<lparr>disk_of := d, calls := calls w @ [cmd]\<rparr>))"

section \<open>The locator\<close>

text \<open>
  The environment of the process: the working directory, \<open>os.path.expanduser\<close> on a
  first component that starts with \<open>~\<close> (unchanged when the home is unknown), and
  \<open>shutil.which\<close>.
\<close>

record env =
  cwd :: path
  home_of :: "string \<Rightarrow> string"
  which :: "string \<Rightarrow> string option"

definition expanduser :: "env \<Rightarrow> path \<Rightarrow> exn + path" where
  "expanduser e p =
     (if root p = [] \<and> parts p \<noteq> [] \<and> take 1 (hd (parts p)) = ''~'' then
        let homedir = home_of e (hd (parts p))
        in if take 1 homedir = ''~'' then Inl RuntimeError
           else let h = path_of_str homedir
                in Inr (Path (root h) (parts h @ tl (parts p)))
      else Inr p)"

text \<open>
  \<open>p.resolve()\<close> on a disk without symbolic links: absolute, \<open>..\<close> removed.  It is also
  where the operating system finds a path that the program hands to it unresolved.
\<close>

definition resolve :: "env \<Rightarrow> path \<Rightarrow> path" where
  "resolve e p =
     (let q = (if root p = [] then joinpath (cwd e) p else p)
      in Path (root q)
           (fold (\<lambda>x acc. if x = ''..'' then butlast acc else acc @ [x]) (parts q) []))"

text \<open>Lines 46 to 62 of \<open>resolve_ffmpeg\<close>: the search on \<open>PATH\<close>.\<close>

definition search_path :: "env \<Rightarrow> exit + string" where
  "search_path e =
     (case which e ''ffmpeg'' of
        None \<Rightarrow> Inl (SysExit NotOnPath)
      | Some found \<Rightarrow> if truthy_str (Some found) then Inr found else Inl (SysExit NotOnPath))"

text \<open>
  \<open>resolve_ffmpeg\<close> reads the disk and changes nothing; \<open>check_ffmpeg_available\<close>
  launches the executable with \<open>-version\<close>.  Both end the process on failure.
\<close>

definition resolve_ffmpeg :: "env \<Rightarrow> disk \<Rightarrow> string option \<Rightarrow> exit + string" where
  "resolve_ffmpeg e d ffmpeg_arg =
     (case ffmpeg_arg of
        None \<Rightarrow> search_path e
      | Some a \<Rightarrow>
          if truthy_str (Some a) then
            (case expanduser e (path_of_str a) of
               Inl x \<Rightarrow> Inl (Uncaught x)
             | Inr p \<Rightarrow>
                 if is_file d (resolve e p) then Inr (str_path p)
                 else
                   let cand = joinpath p (path_of_str ''ffmpeg'')
                   in if is_file d (resolve e cand) then Inr (str_path cand)
                      else Inl (SysExit (NotAtFfmpegArg a)))
          else search_path e)"

definition check_ffmpeg_available :: "process \<Rightarrow> string \<Rightarrow> world \<Rightarrow> exit option \<times> world" where
  "check_ffmpeg_available proc ffmpeg_bin w =
     (let (r, w') = subprocess_run proc [ffmpeg_bin, ''-version''] w
      in case r of
           Exit0 \<Rightarrow> (None, w')
         | LaunchNotFound e \<Rightarrow> (Some (SysExit (CannotRun ffmpeg_bin)), w')
         | ExitNonzero err \<Rightarrow> (Some (SysExit (Corrupt ffmpeg_bin)), w')
         | Raised r \<Rightarrow> (Some (Uncaught (OtherError r)), w'))"

section \<open>The planner and the runner (\<open>main\<close>)\<close>

definition SUPPORTED_INPUTS :: "string list" where
  "SUPPORTED_INPUTS =
     [''.mp3'', ''.wav'', ''.ogg'', ''.m4a'', ''.aac'', ''.flac'', ''.wma'', ''.aiff'',
      ''.aif'', ''.opus'', ''.caf'']"

text \<open>
  Line 160: the regular files below \<open>in_dir\<close> with a supported suffix, in traversal
  order.
\<close>

definition audio_files :: "disk \<Rightarrow> path \<Rightarrow> path list" where
  "audio_files d in_dir =
     filter (\<lambda>p. lower (suffix p) \<in> set SUPPORTED_INPUTS)
       (map (Path (root in_dir))
          (filter (\<lambda>ps. length (parts in_dir) < length ps
                        \<and> take (length (parts in_dir)) ps = parts in_dir) (files d)))"

text \<open>
  Lines 169 and 185: \<open>out_dir / ext.lstrip(".") / rel.with_suffix(ext)\<close>; only
  \<open>with_suffix\<close> can raise.
\<close>

definition destination :: "path \<Rightarrow> path \<Rightarrow> string \<Rightarrow> exn + path" where
  "destination out_dir rel ext =
     (case with_suffix rel ext of
        Inl e \<Rightarrow> Inl e
      | Inr r \<Rightarrow> Inr (joinpath (joinpath out_dir (path_of_str (lstrip_dots ext))) r))"

text \<open>
  Lines 165 to 173, the counting loops.  The state is the disk (directories are
  created) and \<open>total_jobs\<close>; an exception ends the loops and leaves the state as it is.
\<close>

fun plan_targets ::
  "namespace \<Rightarrow> path \<Rightarrow> path \<Rightarrow> string list \<Rightarrow> disk \<times> nat \<Rightarrow> exn option \<times> disk \<times> nat" where
  "plan_targets args out_dir rel [] (d, total_jobs) = (None, d, total_jobs)"
| "plan_targets args out_dir rel (ext # exts) (d, total_jobs) =
     (case destination out_dir rel ext of
        Inl e \<Rightarrow> (Some e, d, total_jobs)
      | Inr dst \<Rightarrow>
          (case mkdir_parents d (parent dst) of
             Inl e \<Rightarrow> (Some e, d, total_jobs)
           | Inr d' \<Rightarrow>
               if exists d' dst \<and> \<not> overwrite args
               then plan_targets args out_dir rel exts (d', total_jobs)
               else plan_targets args out_dir rel exts (d', total_jobs + 1)))"

fun plan_files ::
  "namespace \<Rightarrow> path \<Rightarrow> path \<Rightarrow> string list \<Rightarrow> path list \<Rightarrow> disk \<times> nat
     \<Rightarrow> exn option \<times> disk \<times> nat" where
  "plan_files args in_dir out_dir targets [] (d, total_jobs) = (None, d, total_jobs)"
| "plan_files args in_dir out_dir targets (src # srcs) (d, total_jobs) =
     (case relative_to src in_dir of
        Inl e \<Rightarrow> (Some e, d, total_jobs)
      | Inr rel \<Rightarrow>
          (case plan_targets args out_dir rel targets (d, total_jobs) of
             (Some e, st) \<Rightarrow> (Some e, st)
           | (None, st) \<Rightarrow> plan_files args in_dir out_dir targets srcs st))"

text \<open>Lines 195 to 210: one conversion, with its two exception handlers.\<close>

definition convert ::
  "process \<Rightarrow> string list \<Rightarrow> path \<Rightarrow> path \<Rightarrow> world \<Rightarrow> world" where
  "convert proc cmd src dst w =
     (let (r, w') = subprocess_run proc cmd w
      in case r of
           Exit0 \<Rightarrow> w'
         | ExitNonzero err \<Rightarrow>
             say (if err \<noteq> [] then FfmpegSays (strip err) else NoDetails)
               (say (ConvertError src dst) w')
         | LaunchNotFound e \<Rightarrow> say (Unexpected src dst e) w'
         | Raised e \<Rightarrow> say (Unexpected src dst e) w')"

text \<open>
  Lines 181 to 211, the running loops.  The state is the world and \<open>done\<close>;
  \<open>total_jobs\<close> is only printed.
\<close>

fun run_targets ::
  "process \<Rightarrow> string \<Rightarrow> namespace \<Rightarrow> nat \<Rightarrow> path \<Rightarrow> path \<Rightarrow> path \<Rightarrow> string list
     \<Rightarrow> world \<times> nat \<Rightarrow> exn option \<times> world \<times> nat" where
  "run_targets proc ffmpeg_bin args total_jobs out_dir src rel [] (w, done) = (None, w, done)"
| "run_targets proc ffmpeg_bin args total_jobs out_dir src rel (ext # exts) (w, done) =
     (case destination out_dir rel ext of
        Inl e \<Rightarrow> (Some e, w, done)
      | Inr dst \<Rightarrow>
          if exists (disk_of w) dst \<and> \<not> overwrite args
          then run_targets proc ffmpeg_bin args total_jobs out_dir src rel exts (w, done)
          else
            let cmd = build_ffmpeg_cmd ffmpeg_bin src dst args;
                w1 = say (Progress (done + 1) total_jobs src dst) w;
                w2 = (if dry_run args then say (DryCmd cmd) w1
                      else convert proc cmd src dst w1)
            in run_targets proc ffmpeg_bin args total_jobs out_dir src rel exts (w2, done + 1))"

fun run_files ::
  "process \<Rightarrow> string \<Rightarrow> namespace \<Rightarrow> nat \<Rightarrow> path \<Rightarrow> path \<Rightarrow> string list \<Rightarrow> path list
     \<Rightarrow> world \<times> nat \<Rightarrow> exn option \<times> world \<times> nat" where
  "run_files proc ffmpeg_bin args total_jobs in_dir out_dir targets [] (w, done) =
     (None, w, done)"
| "run_files proc ffmpeg_bin args total_jobs in_dir out_dir targets (src # srcs) (w, done) =
     (case relative_to src in_dir of
        Inl e \<Rightarrow> (Some e, w, done)
      | Inr rel \<Rightarrow>
          (case run_targets proc ffmpeg_bin args total_jobs out_dir src rel targets (w, done) of
             (Some e, st) \<Rightarrow> (Some e, st)
           | (None, st) \<Rightarrow>
               run_files proc ffmpeg_bin args total_jobs in_dir out_dir targets srcs st))"

text \<open>Lines 150 to 157: the telephony shortcut.\<close>

definition telephony_preset :: "string list \<Rightarrow> namespace \<Rightarrow> world \<Rightarrow> namespace \<times> world" where
  "telephony_preset targets args w =
     (if telephony args then
        let w1 = (if ''.wav'' \<notin> set targets then say TelephonyAdvice w else w);
            args1 = (if samplerate args = None then args\<lparr>samplerate := Some 8000\<rparr> else args);
            args2 = (if channels args1 = None then args1\<lparr>channels := Some 1\<rparr> else args1)
        in (args2, w1)
      else (args, w))"

text \<open>
  Lines 159 to 213: discovery, the counting loops, the report and the running loops,
  from the point where the targets are known to be non-empty.
\<close>

definition plan_and_run ::
  "process \<Rightarrow> string \<Rightarrow> namespace \<Rightarrow> path \<Rightarrow> path \<Rightarrow> string list \<Rightarrow> world \<Rightarrow> exit \<times> world" where
  "plan_and_run proc ffmpeg_bin args in_dir out_dir targets w =
     (let found = audio_files (disk_of w) in_dir
      in if found = [] then (Returned, say (NoAudioFound in_dir) w)
         else
           (case plan_files args in_dir out_dir targets found (disk_of w, 0) of
              (Some e, d, total_jobs) \<Rightarrow> (Uncaught e, w\<lparr>disk_of := d\<rparr>)
            | (None, d, total_jobs) \<Rightarrow>
                let w1 = say (TasksToRun total_jobs)
                           (say (FilesFound (length found)) (w\<lparr>disk_of := d\<rparr>))
                in if total_jobs = 0 then (Returned, say NothingToDo w1)
                   else
                     (case run_files proc ffmpeg_bin args total_jobs in_dir out_dir targets
                             found (w1, 0) of
                        (Some e, w2, done) \<Rightarrow> (Uncaught e, w2)
                      | (None, w2, done) \<Rightarrow> (Returned, say Finished w2))))"

text \<open>\<open>main\<close>, after \<open>parse_args\<close> has returned the namespace.\<close>

definition main :: "env \<Rightarrow> process \<Rightarrow> namespace \<Rightarrow> world \<Rightarrow> exit \<times> world" where
  "main e proc args w =
     (case resolve_ffmpeg e (disk_of w) (ffmpeg args) of
        Inl x \<Rightarrow> (x, w)
      | Inr ffmpeg_bin \<Rightarrow>
          (case check_ffmpeg_available proc ffmpeg_bin w of
             (Some x, w1) \<Rightarrow> (x, w1)
           | (None, w1) \<Rightarrow>
               (case expanduser e (path_of_str (input_opt args)) of
                  Inl x \<Rightarrow> (Uncaught x, w1)
                | Inr inp \<Rightarrow>
                    (case expanduser e (path_of_str (output_opt args)) of
                       Inl x \<Rightarrow> (Uncaught x, w1)
                     | Inr outp \<Rightarrow>
                         let in_dir = resolve e inp; out_dir = resolve e outp
                         in (case mkdir_parents (disk_of w1) out_dir of
                               Inl x \<Rightarrow> (Uncaught x, w1)
                             | Inr d \<Rightarrow>
                                 let w2 = w1\<lparr>disk_of := d\<rparr>;
                                     targets = parse_formats (formats args)
                                 in if targets = [] then (Returned, say NoFormats w2)
                                    else
                                      let (args', w3) = telephony_preset targets args w2
                                      in plan_and_run proc ffmpeg_bin args' in_dir out_dir
                                           targets w3)))))"

section \<open>Notions used by the properties\<close>

text \<open>
  The normalisation of \<open>--formats\<close> as the specification words it: split at the commas,
  trim every token, drop the empty ones, lowercase, strip the leading dots, put one dot
  in front.
\<close>

definition parse_formats_spec :: "string \<Rightarrow> string list" where
  "parse_formats_spec s =
     map (\<lambda>t. CHR ''.'' # t)
       (map lstrip_dots (map lower (filter (\<lambda>t. t \<noteq> []) (map strip (split CHR '','' s)))))"

text \<open>\<open>p.stem\<close>: the name without its suffix.\<close>

definition stem :: "path \<Rightarrow> string" where
  "stem p = take (length (name p) - length (suffix p)) (name p)"







subsection \<open>Concrete inputs\<close>

definition example_args :: namespace where
  "example_args =
     \<lparr>input_opt = ''/in'', output_opt = ''/out'', formats = ''flac'', bitrate = None,
      samplerate = None, channels = None, normalize_flag = False, overwrite = False,
      dry_run = False, ffmpeg = None, telephony = False\<rparr>"

definition example_env :: env where
  "example_env =
     \<lparr>cwd = Path ''/'' [''home''], home_of = (\<lambda>s. s),
      which = (\<lambda>s. Some ''/usr/bin/ffmpeg'')\<rparr>"

definition example_disk :: disk where
  "example_disk = \<lparr>files = [[''in'', ''a.mp3''], [''in'', ''a.wav'']], dirs = [[''in'']]\<rparr>"


definition example_world :: world where
  "example_world = \<lparr>disk_of = example_disk, out = [], calls = []\<rparr>"

text \<open>
  An executable that exits with status 0 and, unless it is asked for its version, has
  written the file named by its last argument.
\<close>

definition ffmpeg_writes :: process where
  "ffmpeg_writes cmd d =
     (if last cmd = ''-version'' then (Exit0, d)
      else (Exit0, d\<lparr>files := files d @ [parts (path_of_str (last cmd))]\<rparr>))"


section \<open>Lemmas on strings and paths\<close>

lemma of_char_lower_char:
  "(of_char (lower_char c) :: nat) =
     (let n = of_char c
      in if (65 \<le> n \<and> n \<le> 90) \<or> (192 \<le> n \<and> n \<le> 222 \<and> n \<noteq> 215) then n + 32 else n)"
  by (auto simp: lower_char_def Let_def)

lemma lower_char_comma: "lower_char c = CHR '','' \<longleftrightarrow> c = CHR '',''"
proof -
  have "lower_char c = CHR '','' \<longleftrightarrow> (of_char (lower_char c) :: nat) = of_char (CHR '','')"
    by (simp only: of_char_eq_iff)
  also have "\<dots> \<longleftrightarrow> (of_char c :: nat) = of_char (CHR '','')"
    by (auto simp: of_char_lower_char Let_def)
  also have "\<dots> \<longleftrightarrow> c = CHR '',''"
    by (simp only: of_char_eq_iff)
  finally show ?thesis .
qed

lemma is_space_lower_char: "is_space (lower_char c) = is_space c"
  by (auto simp: is_space_def of_char_lower_char Let_def)

lemma lower_char_idem: "lower_char (lower_char c) = lower_char c"
proof -
  have "(of_char (lower_char (lower_char c)) :: nat) = of_char (lower_char c)"
    by (subst of_char_lower_char) (auto simp: of_char_lower_char Let_def)
  then show ?thesis by (simp only: of_char_eq_iff)
qed

lemma lower_idem: "lower (lower s) = lower s"
  by (simp add: lower_def lower_char_idem)

lemma split_lower: "split CHR '','' (lower s) = map lower (split CHR '','' s)"
  by (induction s) (auto simp: lower_def lower_char_comma split: list.splits)

lemma strip_lower: "strip (lower t) = lower (strip t)"
  by (simp add: strip_def lower_def dropWhile_map rev_map comp_def is_space_lower_char)

lemma split_no_sep: "sep \<notin> set s \<Longrightarrow> split sep s = [s]"
  by (induction s) auto








lemma path_of_str_component:
  assumes "CHR ''/'' \<notin> set b" "b \<noteq> []" "b \<noteq> ''.''"
  shows "path_of_str b = Path [] [b]"
proof -
  from assms have "take 1 b \<noteq> ''/''" by (cases b) auto
  with assms show ?thesis by (simp add: path_of_str_def split_no_sep)
qed

lemma with_suffix_Inr:
  assumes "with_suffix p s = Inr r"
  shows "CHR ''/'' \<notin> set s \<and> s \<noteq> ''.''
         \<and> r = Path (root p) (butlast (parts p) @ [stem p @ s])"
  using assms by (auto simp: with_suffix_def Let_def stem_def split: if_splits)

lemma target_shape:
  assumes "e \<in> set (parse_formats s)"
  shows "\<exists>b. e = CHR ''.'' # b \<and> lstrip_dots e = b \<and> take 1 b \<noteq> ''.''"
proof -
  from assms obtain t where e: "e = CHR ''.'' # lstrip_dots (lower (strip t))"
    by (auto simp: parse_formats_def)
  let ?b = "lstrip_dots (lower (strip t))"
  have "lstrip_dots e = ?b" by (simp add: e lstrip_dots_def lstrip_def)
  moreover have "take 1 ?b \<noteq> ''.''"
  proof (cases ?b)
    case Nil
    then show ?thesis by simp
  next
    case (Cons c cs)
    then have "?b \<noteq> []" by simp
    then have "\<not> (hd ?b = CHR ''.'')"
      unfolding lstrip_dots_def lstrip_def by (metis (mono_tags, lifting) hd_dropWhile)
    with Cons show ?thesis by simp
  qed
  ultimately show ?thesis using e by blast
qed

lemma destination_parts:
  assumes t: "e \<in> set (parse_formats s)"
      and d: "destination out_dir rel e = Inr dst"
      and r: "root rel = []"
  shows "dst = Path (root out_dir)
                 (parts out_dir @ [lstrip_dots e] @ butlast (parts rel) @ [stem rel @ e])"
proof -
  from d obtain q where q: "with_suffix rel e = Inr q"
    and dst: "dst = joinpath (joinpath out_dir (path_of_str (lstrip_dots e))) q"
    by (auto simp: destination_def split: sum.splits)
  from with_suffix_Inr [OF q]
  have v: "CHR ''/'' \<notin> set e" "e \<noteq> ''.''"
    and qq: "q = Path (root rel) (butlast (parts rel) @ [stem rel @ e])" by auto
  from target_shape [OF t] obtain b
    where b: "e = CHR ''.'' # b" "lstrip_dots e = b" "take 1 b \<noteq> ''.''"
    by blast
  from b v have "CHR ''/'' \<notin> set b" "b \<noteq> []" "b \<noteq> ''.''" by auto
  then have "path_of_str b = Path [] [b]" by (rule path_of_str_component)
  with dst qq r b show ?thesis by (simp add: joinpath_def)
qed

section \<open>The command builder\<close>









section \<open>The telephony shortcut\<close>

text \<open>
  Claim C4.  With \<open>--telephony\<close> the namespace after the shortcut is the one before it
  with the sample rate 8000 where the user gave none and the user's value otherwise, and
  with the channel count 1 where the user gave none and the user's value otherwise; no
  other option changes.  The shortcut changes the sample rate exactly when the user gave
  none, and the channel count exactly when the user gave none: no value of the user is
  replaced.
\<close>

theorem telephony_defaults:
  assumes "telephony args"
  shows "fst (telephony_preset targets args w)
           = args\<lparr>samplerate := Some (case samplerate args of None \<Rightarrow> 8000 | Some r \<Rightarrow> r),
                  channels := Some (case channels args of None \<Rightarrow> 1 | Some c \<Rightarrow> c)\<rparr>
         \<and> (samplerate (fst (telephony_preset targets args w)) \<noteq> samplerate args
              \<longleftrightarrow> samplerate args = None)
         \<and> (channels (fst (telephony_preset targets args w)) \<noteq> channels args
              \<longleftrightarrow> channels args = None)"
  using assms
  by (cases "samplerate args"; cases "channels args")
     (simp_all add: telephony_preset_def Let_def)

theorem telephony_defaults_witness:
  "samplerate (fst (telephony_preset [''.wav'']
                      (example_args\<lparr>telephony := True, channels := Some 2\<rparr>) example_world))
     = Some 8000
   \<and> channels (fst (telephony_preset [''.wav'']
                       (example_args\<lparr>telephony := True, channels := Some 2\<rparr>) example_world))
       = Some 2"
proof -
  have h: "telephony (example_args\<lparr>telephony := True, channels := Some 2\<rparr>)" by simp
  from telephony_defaults [OF h, of "[''.wav'']" example_world]
  show ?thesis by (simp add: example_args_def)
qed

section \<open>The target formats\<close>

text \<open>
  Claim C10.  The list parsed from \<open>--formats\<close> is the normalisation the claim words:
  tokens trimmed, blank tokens dropped, lowercased, leading dots stripped, one dot put in
  front.  Hence the case of the letters is immaterial, \<open>WAV\<close>, \<open> wav \<close> and \<open>.wav\<close> give
  the same target, and a repeated token is kept twice.
\<close>

theorem formats_normalised:
  "parse_formats s = parse_formats_spec s
   \<and> parse_formats (lower s) = parse_formats s
   \<and> parse_formats ''WAV'' = [''.wav'']
   \<and> parse_formats '' wav '' = [''.wav'']
   \<and> parse_formats ''.wav'' = [''.wav'']
   \<and> parse_formats ''mp3,,WAV, wav'' = [''.mp3'', ''.wav'', ''.wav'']"
proof (intro conjI)
  show "parse_formats s = parse_formats_spec s"
    by (simp add: parse_formats_def parse_formats_spec_def filter_map comp_def)
  show "parse_formats (lower s) = parse_formats s"
    by (simp add: parse_formats_def split_lower filter_map comp_def strip_lower lower_idem)
      (simp add: lower_def)
  show "parse_formats ''WAV'' = [''.wav'']" by code_simp
  show "parse_formats '' wav '' = [''.wav'']" by code_simp
  show "parse_formats ''.wav'' = [''.wav'']" by code_simp
  show "parse_formats ''mp3,,WAV, wav'' = [''.mp3'', ''.wav'', ''.wav'']" by code_simp
qed

section \<open>Destinations\<close>

text \<open>
  Claim C1, as the code has it.  Two pairs of a source below the input directory and a
  normalised target have the same destination exactly when the targets are equal and the
  relative source paths agree up to the suffix of the file name (same directory, same
  stem).  So one source never gets the same destination for two different targets, but
  two sources that differ only in their suffix do collide.
\<close>

theorem same_destination:
  assumes "e1 \<in> set (parse_formats s)" and "e2 \<in> set (parse_formats s)"
      and "relative_to src1 in_dir = Inr rel1" and "relative_to src2 in_dir = Inr rel2"
      and "destination out_dir rel1 e1 = Inr dst1" and "destination out_dir rel2 e2 = Inr dst2"
  shows "dst1 = dst2 \<longleftrightarrow> e1 = e2 \<and> parent rel1 = parent rel2 \<and> stem rel1 = stem rel2"
proof -
  from assms(3,4) have r: "root rel1 = []" "root rel2 = []"
    by (auto simp: relative_to_def split: if_splits)
  from target_shape [OF assms(1)] target_shape [OF assms(2)]
  have l: "lstrip_dots e1 = lstrip_dots e2 \<longleftrightarrow> e1 = e2" by auto
  have "dst1 = dst2 \<longleftrightarrow>
          lstrip_dots e1 = lstrip_dots e2 \<and> butlast (parts rel1) = butlast (parts rel2)
          \<and> stem rel1 @ e1 = stem rel2 @ e2"
    unfolding destination_parts [OF assms(1) assms(5) r(1)]
              destination_parts [OF assms(2) assms(6) r(2)]
    by auto
  also have "\<dots> \<longleftrightarrow> e1 = e2 \<and> parent rel1 = parent rel2 \<and> stem rel1 = stem rel2"
    using l r by (auto simp: parent_def)
  finally show ?thesis .
qed

theorem same_destination_witness:
  "destination (Path ''/'' [''out'']) (Path [] [''b'', ''c.wav'']) ''.flac''
     \<noteq> destination (Path ''/'' [''out'']) (Path [] [''b'', ''c.wav'']) ''.wav''"
proof -
  have t1: "''.flac'' \<in> set (parse_formats ''wav,flac'')" by code_simp
  have t2: "''.wav'' \<in> set (parse_formats ''wav,flac'')" by code_simp
  have r: "relative_to (Path ''/'' [''in'', ''b'', ''c.wav'']) (Path ''/'' [''in''])
             = Inr (Path [] [''b'', ''c.wav''])" by code_simp
  have d1: "destination (Path ''/'' [''out'']) (Path [] [''b'', ''c.wav'']) ''.flac''
              = Inr (Path ''/'' [''out'', ''flac'', ''b'', ''c.flac''])" by code_simp
  have d2: "destination (Path ''/'' [''out'']) (Path [] [''b'', ''c.wav'']) ''.wav''
              = Inr (Path ''/'' [''out'', ''wav'', ''b'', ''c.wav''])" by code_simp
  from same_destination [OF t1 t2 r r d1 d2]
  have "Path ''/'' [''out'', ''flac'', ''b'', ''c.flac'']
          \<noteq> Path ''/'' [''out'', ''wav'', ''b'', ''c.wav'']" by simp
  then show ?thesis unfolding d1 d2 by simp
qed

text \<open>
  Claim C1 as it is written fails: the files \<open>a.mp3\<close> and \<open>a.wav\<close> of one directory are
  both discovered, they are two different sources, for the target flac both get the
  destination \<open>/out/flac/a.flac\<close>, and both pairs are counted as jobs.
\<close>

theorem same_destination_counterexample:
  "audio_files example_disk (Path ''/'' [''in''])
     = [Path ''/'' [''in'', ''a.mp3''], Path ''/'' [''in'', ''a.wav'']]
   \<and> parse_formats ''flac'' = [''.flac'']
   \<and> relative_to (Path ''/'' [''in'', ''a.mp3'']) (Path ''/'' [''in''])
       = Inr (Path [] [''a.mp3''])
   \<and> relative_to (Path ''/'' [''in'', ''a.wav'']) (Path ''/'' [''in''])
       = Inr (Path [] [''a.wav''])
   \<and> destination (Path ''/'' [''out'']) (Path [] [''a.mp3'']) ''.flac''
       = Inr (Path ''/'' [''out'', ''flac'', ''a.flac''])
   \<and> destination (Path ''/'' [''out'']) (Path [] [''a.wav'']) ''.flac''
       = Inr (Path ''/'' [''out'', ''flac'', ''a.flac''])
   \<and> snd (snd (plan_files example_args (Path ''/'' [''in'']) (Path ''/'' [''out''])
                 (parse_formats ''flac'') (audio_files example_disk (Path ''/'' [''in'']))
                 (example_disk, 0))) = 2"
  by code_simp

section \<open>Directories\<close>














section \<open>The planner\<close>









section \<open>Dry runs\<close>

lemma say_fields [simp]:
  "disk_of (say m w) = disk_of w" "calls (say m w) = calls w" "out (say m w) = out w @ [m]"
  by (simp_all add: say_def)










section \<open>The runner\<close>














section \<open>Two runs of \<open>main\<close>\<close>

text \<open>
  Claim C2, on the code.  With \<open>--formats " , "\<close> no target is parsed; \<open>main\<close> has probed
  the executable and made the output directory, prints the error line and returns: the
  process ends with status 0, not with a nonzero status.  No job is counted or run.
\<close>

theorem no_formats_returns:
  "parse_formats '' , '' = []
   \<and> main example_env ffmpeg_writes (example_args\<lparr>formats := '' , ''\<rparr>) example_world
       = (Returned,
          \<lparr>disk_of = \<lparr>files = [[''in'', ''a.mp3''], [''in'', ''a.wav'']],
                      dirs = [[''in''], [''out'']]\<rparr>,
           out = [NoFormats], calls = [[''/usr/bin/ffmpeg'', ''-version'']]\<rparr>)
   \<and> exit_status Returned = 0"
  by code_simp

text \<open>
  Claim C8, on the code.  The input directory holds \<open>a.mp3\<close> and \<open>a.wav\<close>, the format is
  flac, overwrite is not set, and the executable writes its output file.  Two jobs are
  counted and announced; the first conversion creates \<open>/out/flac/a.flac\<close>, so the second
  pair is skipped by the test that is repeated in the running loops: one job is run.
\<close>

theorem planned_two_ran_one:
  "main example_env ffmpeg_writes example_args example_world
     = (Returned,
        \<lparr>disk_of = \<lparr>files = [[''in'', ''a.mp3''], [''in'', ''a.wav''],
                             [''out'', ''flac'', ''a.flac'']],
                    dirs = [[''in''], [''out''], [''out'', ''flac'']]\<rparr>,
         out = [FilesFound 2, TasksToRun 2,
                Progress 1 2 (Path ''/'' [''in'', ''a.mp3''])
                  (Path ''/'' [''out'', ''flac'', ''a.flac'']),
                Finished],
         calls = [[''/usr/bin/ffmpeg'', ''-version''],
                  [''/usr/bin/ffmpeg'', ''-hide_banner'', ''-loglevel'', ''error'', ''-n'',
                   ''-i'', ''/in/a.mp3'', ''-c:a'', ''flac'', ''/out/flac/a.flac'']]\<rparr>)"
  by code_simp

end
